theory Spec2Isabelle
  imports Main
begin

section \<open>The Gboard plugin of \<^verbatim>\<open>src/lib/index.js\<close>\<close>

text \<open>
  The plugin is a closure over three variables (\<^verbatim>\<open>compositionCount\<close>,
  \<^verbatim>\<open>isComposing\<close>, \<^verbatim>\<open>textToInsert\<close>) and four handlers that the host
  editor calls with a \<^verbatim>\<open>change\<close> object. The closure variables are a record
  that every handler takes and returns; the calls a handler makes on \<^verbatim>\<open>change\<close>
  are returned as a list, in the order of the calls. JavaScript strings are character
  lists; \<^verbatim>\<open>compositionCount\<close> only ever counts up from 0 by one, so it is a
  natural number. What the plugin imports is an argument of the handlers
  (\<^verbatim>\<open>IS_ANDROID\<close>, the result of \<^verbatim>\<open>findPoint\<close>, the diff utility) or, for
  the host editor's selection and document, a small model of the operations the handlers
  call.
\<close>

subsection \<open>Data of the host editor that the handlers touch\<close>

type_synonym key = string
type_synonym marks = "string set"

text \<open>
  A selection of the host editor (its \<^verbatim>\<open>Range\<close>): an immutable value, so every
  method below returns a new range and leaves its receiver alone.
  \<^verbatim>\<open>updateTextAndSelection\<close> depends on that: it derives both \<^verbatim>\<open>corrected\<close>
  and \<^verbatim>\<open>entire\<close> from the same \<^verbatim>\<open>selection\<close>.
\<close>

record range =
  anchorKey :: key
  anchorOffset :: int
  focusKey :: key
  focusOffset :: int
  isBackward :: bool

definition collapseToStart :: "range \<Rightarrow> range" where
  "collapseToStart r =
     (if isBackward r
      then r\<lparr>anchorKey := focusKey r, anchorOffset := focusOffset r, isBackward := False\<rparr>
      else r\<lparr>focusKey := anchorKey r, focusOffset := anchorOffset r, isBackward := False\<rparr>)"

definition collapseToEnd :: "range \<Rightarrow> range" where
  "collapseToEnd r =
     (if isBackward r
      then r\<lparr>focusKey := anchorKey r, focusOffset := anchorOffset r, isBackward := False\<rparr>
      else r\<lparr>anchorKey := focusKey r, anchorOffset := focusOffset r, isBackward := False\<rparr>)"

definition move :: "int \<Rightarrow> range \<Rightarrow> range" where
  "move n r = r\<lparr>anchorOffset := anchorOffset r + n, focusOffset := focusOffset r + n\<rparr>"

definition moveAnchorTo :: "key \<Rightarrow> int \<Rightarrow> range \<Rightarrow> range" where
  "moveAnchorTo k off r =
     r\<lparr>anchorKey := k, anchorOffset := off,
       isBackward := (if k = focusKey r then off > focusOffset r else isBackward r)\<rparr>"

definition moveFocusTo :: "key \<Rightarrow> int \<Rightarrow> range \<Rightarrow> range" where
  "moveFocusTo k off r =
     r\<lparr>focusKey := k, focusOffset := off,
       isBackward := (if k = anchorKey r then anchorOffset r > off else isBackward r)\<rparr>"

text \<open>The calls the handlers make on \<^verbatim>\<open>change\<close>.\<close>

datatype change_call =
    InsertText string
  | DeleteCharBackward
  | InsertTextAtRange range string marks
  | Select range

text \<open>
  What a handler hands back to the plugin stack: \<^verbatim>\<open>return false\<close> stops the
  stack, a bare \<^verbatim>\<open>return\<close> (or falling off the end) yields
  \<^verbatim>\<open>undefined\<close> and lets the next plugin run.
\<close>

datatype returned = RetFalse | RetUndefined

subsection \<open>Composition state and its handlers\<close>

record plugin_state =
  compositionCount :: nat
  isComposing :: bool
  textToInsert :: string

definition initial_state :: plugin_state where
  "initial_state = \<lparr>compositionCount = 0, isComposing = False, textToInsert = ''''\<rparr>"

record before_input_result =
  state_after :: plugin_state
  calls :: "change_call list"
  defaultPrevented :: bool
  result :: returned

text \<open>
  \<^verbatim>\<open>onBeforeInput(event, change, editor)\<close>; \<open>is_android\<close> is the imported flag
  \<^verbatim>\<open>IS_ANDROID\<close> and \<open>data\<close> is \<^verbatim>\<open>event.data\<close>. The branch on
  \<^verbatim>\<open>isComposing\<close> in the source is empty.
\<close>

definition onBeforeInput :: "bool \<Rightarrow> string \<Rightarrow> plugin_state \<Rightarrow> before_input_result" where
  "onBeforeInput is_android data s =
     (let localInsert = '''';
          (localInsert, s) =
            (if is_android then
               (let localInsert =
                      (if data \<noteq> '''' \<and> textToInsert s = '''' then localInsert @ data
                       else localInsert)
                in if textToInsert s \<noteq> ''''
                   then (localInsert @ textToInsert s @ data, s\<lparr>textToInsert := ''''\<rparr>)
                   else (localInsert, s))
             else (localInsert @ data, s))
      in \<lparr>state_after = s,
          calls = (if localInsert \<noteq> '''' then [InsertText localInsert] else []),
          defaultPrevented = True,
          result = RetFalse\<rparr>)"

text \<open>
  The callback that \<^verbatim>\<open>onCompositionEnd\<close> hands to
  \<^verbatim>\<open>window.requestAnimationFrame\<close>; \<open>n\<close> is the count it captured.
\<close>

definition frame_callback :: "nat \<Rightarrow> plugin_state \<Rightarrow> plugin_state" where
  "frame_callback n s = (if compositionCount s > n then s else s\<lparr>isComposing := False\<rparr>)"

text \<open>
  \<^verbatim>\<open>onCompositionEnd(event, change, editor)\<close> returns the new state and the
  count captured by the callback it scheduled.
\<close>

definition onCompositionEnd :: "bool \<Rightarrow> string \<Rightarrow> plugin_state \<Rightarrow> plugin_state \<times> nat" where
  "onCompositionEnd is_android data s =
     (let n = compositionCount s
      in (if is_android \<and> isComposing s
          then (if data \<noteq> '''' then s\<lparr>textToInsert := data\<rparr> else s)
          else s,
          n))"

definition onCompositionStart :: "plugin_state \<Rightarrow> plugin_state" where
  "onCompositionStart s = s\<lparr>isComposing := True, compositionCount := compositionCount s + 1\<rparr>"

subsection \<open>The event loop around the composition handlers\<close>

text \<open>
  The handlers run one at a time; a scheduled callback runs at the next animation
  frame, after any number of handlers. A world is the plugin state, the captured
  counts of the callbacks still waiting, and the calls made on \<^verbatim>\<open>change\<close>
  so far. \<^verbatim>\<open>onInput\<close> neither reads nor writes the three variables, so it is
  not an event here.
\<close>

record world =
  plugin :: plugin_state
  pending_frames :: "nat list"
  change_log :: "change_call list"

datatype event =
    CompositionStart
  | CompositionEnd string
  | BeforeInput string
  | AnimationFrame

definition initial_world :: world where
  "initial_world = \<lparr>plugin = initial_state, pending_frames = [], change_log = []\<rparr>"

fun step :: "bool \<Rightarrow> world \<Rightarrow> event \<Rightarrow> world" where
  "step is_android w CompositionStart = w\<lparr>plugin := onCompositionStart (plugin w)\<rparr>"
| "step is_android w (CompositionEnd data) =
     (let (s, n) = onCompositionEnd is_android data (plugin w)
      in w\<lparr>plugin := s, pending_frames := pending_frames w @ [n]\<rparr>)"
| "step is_android w (BeforeInput data) =
     (let r = onBeforeInput is_android data (plugin w)
      in w\<lparr>plugin := state_after r, change_log := change_log w @ calls r\<rparr>)"
| "step is_android w AnimationFrame =
     w\<lparr>plugin := fold frame_callback (pending_frames w) (plugin w), pending_frames := []\<rparr>"

definition run :: "bool \<Rightarrow> event list \<Rightarrow> world \<Rightarrow> world" where
  "run is_android es w = foldl (step is_android) w es"

text \<open>No waiting callback has captured a count above the current one.\<close>

definition frames_bounded :: "world \<Rightarrow> bool" where
  "frames_bounded w = list_all (\<lambda>n. n \<le> compositionCount (plugin w)) (pending_frames w)"

subsection \<open>The document of the host editor\<close>

text \<open>
  The handlers read the document through the host editor's accessors
  (\<^verbatim>\<open>getDescendant\<close>, \<^verbatim>\<open>getClosestBlock\<close>, \<^verbatim>\<open>getLeaves\<close>,
  \<^verbatim>\<open>getLastText\<close>). A text node is its key and its characters, each with its
  set of marks; a block is the list of the text nodes below it, in document order; keys
  are unique in a document, so two nodes are the same object exactly when they are equal
  here.
\<close>

record text_node =
  node_key :: key
  characters :: "(char \<times> marks) list"

type_synonym block = "text_node list"
type_synonym document = "block list"

record editor_value =
  document :: document
  selection :: range

record leaf =
  leaf_text :: string
  leaf_marks :: marks

record point =
  key :: key
  offset :: nat

definition getDescendant :: "document \<Rightarrow> key \<Rightarrow> text_node option" where
  "getDescendant doc k = find (\<lambda>n. node_key n = k) (concat doc)"

definition getClosestBlock :: "document \<Rightarrow> key \<Rightarrow> block option" where
  "getClosestBlock doc k = find (\<lambda>b. list_ex (\<lambda>n. node_key n = k) b) doc"

definition getLastText :: "block \<Rightarrow> text_node option" where
  "getLastText b = (if b = [] then None else Some (last b))"

text \<open>
  The leaves of a node are the maximal runs of characters with the same marks; a node
  without characters has one empty leaf.
\<close>

fun leaves_of :: "(char \<times> marks) list \<Rightarrow> leaf list" where
  "leaves_of [] = []"
| "leaves_of ((c, m) # cs) =
     (case leaves_of cs of
        [] \<Rightarrow> [\<lparr>leaf_text = [c], leaf_marks = m\<rparr>]
      | l # ls \<Rightarrow>
          if leaf_marks l = m then l\<lparr>leaf_text := c # leaf_text l\<rparr> # ls
          else \<lparr>leaf_text = [c], leaf_marks = m\<rparr> # l # ls)"

definition getLeaves :: "text_node \<Rightarrow> leaf list" where
  "getLeaves node =
     (if characters node = [] then [\<lparr>leaf_text = [], leaf_marks = {}\<rparr>]
      else leaves_of (characters node))"



subsection \<open>The diff utility\<close>

text \<open>
  One change object of the edit script that \<^verbatim>\<open>jsdiff.diffChars\<close> returns;
  \<open>added\<close> and \<open>removed\<close> say whether the field is \<^verbatim>\<open>true\<close>. The utility is
  an imported package, so \<open>onInput\<close> below takes it as an argument.
\<close>

record diff_op =
  count :: nat
  added :: bool
  removed :: bool
  op_value :: string

type_synonym diff_utility = "string \<Rightarrow> string \<Rightarrow> diff_op list"

text \<open>
  A diff utility to run the handler on concrete strings: the longest common prefix, what
  was removed, what was added, the common suffix of the rest, without the empty parts.
  On the strings used below (one removal or one insertion after a common prefix) this
  is the edit script of a shortest-edit diff that follows the common prefix first.
\<close>

fun common_prefix :: "string \<Rightarrow> string \<Rightarrow> string" where
  "common_prefix (x # xs) (y # ys) = (if x = y then x # common_prefix xs ys else [])"
| "common_prefix _ _ = []"

definition unchanged_op :: "string \<Rightarrow> diff_op" where
  "unchanged_op s = \<lparr>count = length s, added = False, removed = False, op_value = s\<rparr>"

definition removed_op :: "string \<Rightarrow> diff_op" where
  "removed_op s = \<lparr>count = length s, added = False, removed = True, op_value = s\<rparr>"

definition added_op :: "string \<Rightarrow> diff_op" where
  "added_op s = \<lparr>count = length s, added = True, removed = False, op_value = s\<rparr>"

definition prefix_suffix_diff :: diff_utility where
  "prefix_suffix_diff a b =
     (let p = common_prefix a b;
          a' = drop (length p) a;
          b' = drop (length p) b;
          s = rev (common_prefix (rev a') (rev b'))
      in filter (\<lambda>d. count d > 0)
           [unchanged_op p,
            removed_op (take (length a' - length s) a'),
            added_op (take (length b' - length s) b'),
            unchanged_op s])"

subsection \<open>\<^verbatim>\<open>onInput\<close> and \<^verbatim>\<open>updateTextAndSelection\<close>\<close>

datatype js_error = TypeError

text \<open>
  The callback of \<^verbatim>\<open>leaves.find\<close> with the two variables it assigns:
  \<open>i\<close> is the index of the leaf it looks at, \<open>start\<close> and \<open>end'\<close> are
  \<^verbatim>\<open>start\<close> and \<^verbatim>\<open>end\<close>. The result is the leaf found (with its index,
  which is what \<^verbatim>\<open>leaf == lastLeaf\<close> compares) and the final values of the two
  variables.
\<close>

fun find_leaf ::
  "leaf list \<Rightarrow> nat \<Rightarrow> nat \<Rightarrow> nat \<Rightarrow> nat \<Rightarrow> (nat \<times> leaf) option \<times> nat \<times> nat" where
  "find_leaf [] off i start end' = (None, start, end')"
| "find_leaf (r # rs) off i start end' =
     (let start = end';
          end' = end' + length (leaf_text r)
      in if end' \<ge> off then (Some (i, r), start, end')
         else find_leaf rs off (i + 1) start end')"

text \<open>\<^verbatim>\<open>leaves.last()\<close>, with its index; \<open>None\<close> is \<^verbatim>\<open>undefined\<close>.\<close>

definition lastLeaf :: "leaf list \<Rightarrow> (nat \<times> leaf) option" where
  "lastLeaf leaves = (if leaves = [] then None else Some (length leaves - 1, last leaves))"

text \<open>
  The COMPAT step: \<^verbatim>\<open>lastChar\<close> is \<^verbatim>\<open>textContent.charAt(textContent.length - 1)\<close>,
  the empty string when \<^verbatim>\<open>textContent\<close> is empty; \<^verbatim>\<open>slice(0, -1)\<close> drops the
  last character.
\<close>

definition strip_trailing_newline :: "bool \<Rightarrow> bool \<Rightarrow> string \<Rightarrow> string" where
  "strip_trailing_newline isLastText isLastLeaf textContent =
     (let lastChar = (if textContent = [] then [] else [last textContent])
      in if isLastText \<and> isLastLeaf \<and> lastChar = [CHR 0x0A] then butlast textContent
         else textContent)"

text \<open>
  What \<^verbatim>\<open>onInput\<close> knows once it has found the leaf (lines 142 to 169 of the
  source): the leaf and its index among the leaves, \<^verbatim>\<open>start\<close>,
  \<^verbatim>\<open>end\<close>, and \<^verbatim>\<open>textContent\<close> after the COMPAT step.
  \<^verbatim>\<open>node.key\<close> on a missing node, \<^verbatim>\<open>block.getLastText()\<close> on a missing
  block and \<^verbatim>\<open>leaf.text\<close> on a missing leaf throw.
\<close>

record located =
  the_leaf :: leaf
  leaf_index :: nat
  leafStart :: nat
  leafEnd :: nat
  observedText :: string

definition locate :: "point \<Rightarrow> string \<Rightarrow> editor_value \<Rightarrow> js_error + located" where
  "locate p anchorTextContent v =
     (case getDescendant (document v) (key p) of
        None \<Rightarrow> Inl TypeError
      | Some node \<Rightarrow>
          (case getClosestBlock (document v) (node_key node) of
             None \<Rightarrow> Inl TypeError
           | Some block \<Rightarrow>
               (let leaves = getLeaves node;
                    lastText = getLastText block;
                    (found, start, end') = find_leaf leaves (offset p) 0 0 0
                in case (case found of Some l \<Rightarrow> Some l | None \<Rightarrow> lastLeaf leaves) of
                     None \<Rightarrow> Inl TypeError
                   | Some (i, lf) \<Rightarrow>
                       (let isLastText = (Some node = lastText);
                            isLastLeaf = (Some i = map_option fst (lastLeaf leaves))
                        in Inr \<lparr>the_leaf = lf, leaf_index = i, leafStart = start,
                                leafEnd = end',
                                observedText =
                                  strip_trailing_newline isLastText isLastLeaf
                                    anchorTextContent\<rparr>))))"

definition updateTextAndSelection ::
  "editor_value \<Rightarrow> string \<Rightarrow> string \<Rightarrow> point \<Rightarrow> nat \<Rightarrow> nat \<Rightarrow> marks \<Rightarrow> change_call list" where
  "updateTextAndSelection v textContent text p start end' mks =
     (let sel = selection v;
          delta = int (length textContent) - int (length text);
          corrected = move delta (collapseToEnd sel);
          entire = moveFocusTo (key p) (int end') (moveAnchorTo (key p) (int start) sel)
      in [InsertTextAtRange entire textContent mks, Select corrected])"

text \<open>
  \<^verbatim>\<open>onInput(event, change, editor)\<close>: \<open>pt\<close> is what \<^verbatim>\<open>findPoint\<close> returned
  for the native selection, \<open>anchorTextContent\<close> is \<^verbatim>\<open>anchorNode.textContent\<close>,
  \<open>v\<close> is \<^verbatim>\<open>change.value\<close>. The result is the error thrown, or the calls made
  on \<^verbatim>\<open>change\<close> and the value returned. In the single-removal branch the source
  evaluates \<^verbatim>\<open>selection.collapseToStart().move(ind)\<close> and drops the range it
  gets; the only call on \<^verbatim>\<open>change\<close> there is \<^verbatim>\<open>deleteCharBackward()\<close>.
\<close>

definition onInput ::
  "bool \<Rightarrow> diff_utility \<Rightarrow> point option \<Rightarrow> string \<Rightarrow> editor_value
     \<Rightarrow> js_error + change_call list \<times> returned" where
  "onInput is_android diffChars pt anchorTextContent v =
     (case pt of
        None \<Rightarrow> Inr ([], RetUndefined)
      | Some p \<Rightarrow>
          (case locate p anchorTextContent v of
             Inl e \<Rightarrow> Inl e
           | Inr c \<Rightarrow>
               (let text = leaf_text (the_leaf c)
                in if observedText c = text then Inr ([], RetUndefined)
                   else if is_android then
                     (let diffs = diffChars text (observedText c)
                      in if length diffs > 0 then
                           (case diffs of
                              d0 # d1 # _ \<Rightarrow>
                                (let ind = count d0
                                 in if removed d1 then
                                      if count d1 = 1 then
                                        (let dropped = move (int ind) (collapseToStart (selection v))
                                         in Inr ([DeleteCharBackward], RetFalse))
                                      else
                                        Inr (updateTextAndSelection v (observedText c) text p
                                               (leafStart c) (leafEnd c) (leaf_marks (the_leaf c)),
                                             RetFalse)
                                    else Inr ([], RetFalse))
                            | _ \<Rightarrow> Inl TypeError)
                         else Inr ([], RetFalse))
                   else
                     Inr (updateTextAndSelection v (observedText c) text p
                            (leafStart c) (leafEnd c) (leaf_marks (the_leaf c)),
                          RetFalse))))"

subsection \<open>What the calls on \<^verbatim>\<open>change\<close> do to the editor's value\<close>

text \<open>
  \<^verbatim>\<open>select\<close> sets the selection. \<^verbatim>\<open>insertTextAtRange\<close> with a range inside
  one text node works in two steps, as the host editor does. If the range is expanded
  it first removes the characters of the range from that node; after that removal it
  takes the place to insert at from the current selection when the selection starts in
  another node than the range, and from the start of the range otherwise. Then it puts
  the new text there, each character with the given marks. A collapsed range removes
  nothing and inserts at its own start. The selection that \<^verbatim>\<open>insertTextAtRange\<close>
  leaves is not modelled: the handler calls \<^verbatim>\<open>select\<close> with a range of its own
  right after. The other calls, a range across nodes and a selection at a negative offset
  are left to the argument \<open>other\<close>: the theorems below hold for every choice of it.
\<close>

definition startKey :: "range \<Rightarrow> key" where
  "startKey r = (if isBackward r then focusKey r else anchorKey r)"

definition startOffset :: "range \<Rightarrow> int" where
  "startOffset r = (if isBackward r then focusOffset r else anchorOffset r)"

definition endOffset :: "range \<Rightarrow> int" where
  "endOffset r = (if isBackward r then anchorOffset r else focusOffset r)"

definition remove_characters :: "nat \<Rightarrow> nat \<Rightarrow> (char \<times> marks) list \<Rightarrow> (char \<times> marks) list" where
  "remove_characters s e cs = take s cs @ drop e cs"

definition insert_characters ::
  "nat \<Rightarrow> string \<Rightarrow> marks \<Rightarrow> (char \<times> marks) list \<Rightarrow> (char \<times> marks) list" where
  "insert_characters off t m cs = take off cs @ map (\<lambda>c. (c, m)) t @ drop off cs"


definition update_node :: "key \<Rightarrow> (text_node \<Rightarrow> text_node) \<Rightarrow> document \<Rightarrow> document" where
  "update_node k f doc = map (map (\<lambda>n. if node_key n = k then f n else n)) doc"

fun apply_call ::
  "(change_call \<Rightarrow> editor_value \<Rightarrow> editor_value) \<Rightarrow> editor_value \<Rightarrow> change_call
     \<Rightarrow> editor_value" where
  "apply_call other v (Select r) = v\<lparr>selection := r\<rparr>"
| "apply_call other v (InsertTextAtRange r t m) =
     (if anchorKey r = focusKey r \<and> 0 \<le> startOffset r \<and> startOffset r \<le> endOffset r
      then
        (let k = anchorKey r;
             s = nat (startOffset r);
             e = nat (endOffset r);
             isExpanded = (s \<noteq> e);
             deleted =
               (if isExpanded
                then update_node k
                       (\<lambda>n. n\<lparr>characters := remove_characters s e (characters n)\<rparr>)
                       (document v)
                else document v);
             elsewhere = (isExpanded \<and> startKey (selection v) \<noteq> k)
         in if elsewhere \<and> startOffset (selection v) < 0
            then other (InsertTextAtRange r t m) v
            else
              (let (k', off) =
                     (if elsewhere
                      then (startKey (selection v), nat (startOffset (selection v)))
                      else (k, s))
               in v\<lparr>document :=
                      update_node k'
                        (\<lambda>n. n\<lparr>characters := insert_characters off t m (characters n)\<rparr>)
                        deleted\<rparr>))
      else other (InsertTextAtRange r t m) v)"
| "apply_call other v c = other c v"

definition apply_calls ::
  "(change_call \<Rightarrow> editor_value \<Rightarrow> editor_value) \<Rightarrow> change_call list \<Rightarrow> editor_value
     \<Rightarrow> editor_value" where
  "apply_calls other cs v = foldl (apply_call other) v cs"

subsection \<open>Documents to run the handlers on\<close>

definition collapsed_at :: "key \<Rightarrow> int \<Rightarrow> range" where
  "collapsed_at k off =
     \<lparr>anchorKey = k, anchorOffset = off, focusKey = k, focusOffset = off, isBackward = False\<rparr>"

text \<open>One block with one text node, \<open>hello world\<close> without marks, the cursor after the \<open>w\<close>.\<close>

definition hello_value :: editor_value where
  "hello_value =
     \<lparr>document = [[\<lparr>node_key = ''k1'',
                      characters = map (\<lambda>c. (c, {})) ''hello world''\<rparr>]],
      selection = collapsed_at ''k1'' 7\<rparr>"

definition hello_point :: point where
  "hello_point = \<lparr>key = ''k1'', offset = 7\<rparr>"





section \<open>Properties of the composition handlers\<close>

lemma frame_callback_textToInsert:
  "textToInsert (frame_callback n s) = textToInsert s"
  by (simp add: frame_callback_def)

lemma fold_frame_callback_textToInsert:
  "textToInsert (fold frame_callback ns s) = textToInsert s"
  by (induction ns arbitrary: s) (simp_all add: frame_callback_def)

lemma fold_frame_callback_count:
  "compositionCount (fold frame_callback ns s) = compositionCount s"
  by (induction ns arbitrary: s) (simp_all add: frame_callback_def)

lemma fold_frame_callback_stale:
  "list_all (\<lambda>n. n < compositionCount s) ns \<Longrightarrow> fold frame_callback ns s = s"
  by (induction ns arbitrary: s) (simp_all add: frame_callback_def)

lemma run_Nil: "run a [] w = w"
  by (simp add: run_def)

lemma run_Cons: "run a (e # es) w = run a es (step a w e)"
  by (simp add: run_def)

text \<open>
  C5. On Android, composition start, composition end with data \<open>''teh''\<close> and then
  before-input with data \<open>'' ''\<close> make exactly one call on \<^verbatim>\<open>change\<close>, the
  insertion of \<open>''teh ''\<close>, and leave \<^verbatim>\<open>textToInsert\<close> empty. This holds from
  every state of the plugin, and also when the animation frame scheduled by the
  composition end fires before the before-input event.
\<close>

theorem composition_round_trip:
  "change_log (run True [CompositionStart, CompositionEnd ''teh'', BeforeInput '' ''] w)
     = change_log w @ [InsertText ''teh '']
   \<and> textToInsert
       (plugin (run True [CompositionStart, CompositionEnd ''teh'', BeforeInput '' ''] w)) = []
   \<and> change_log
       (run True [CompositionStart, CompositionEnd ''teh'', AnimationFrame, BeforeInput '' ''] w)
     = change_log w @ [InsertText ''teh '']
   \<and> textToInsert
       (plugin (run True
          [CompositionStart, CompositionEnd ''teh'', AnimationFrame, BeforeInput '' ''] w)) = []"
  by (simp add: run_Cons run_Nil onCompositionStart_def onCompositionEnd_def onBeforeInput_def
      fold_frame_callback_textToInsert frame_callback_textToInsert)

text \<open>
  C10. Off Android, \<^verbatim>\<open>onCompositionEnd\<close> leaves the whole plugin state as it
  was, whatever the event data and whether or not a composition is in progress; on any
  platform \<^verbatim>\<open>textToInsert\<close> afterwards is the event data exactly when the platform
  is Android, a composition is in progress and the data is not empty, and is unchanged
  otherwise.
\<close>

theorem composition_end_buffers_on_android_only:
  "fst (onCompositionEnd False data s) = s
   \<and> textToInsert (fst (onCompositionEnd is_android data s))
       = (if is_android \<and> isComposing s \<and> data \<noteq> [] then data else textToInsert s)"
  by (simp add: onCompositionEnd_def)

subsection \<open>The generation guard of the deferred reset\<close>

lemma step_count_mono: "compositionCount (plugin w) \<le> compositionCount (plugin (step a w e))"
  by (cases e)
     (simp_all add: onCompositionStart_def onCompositionEnd_def onBeforeInput_def
        fold_frame_callback_count split: prod.splits)

lemma run_count_mono: "compositionCount (plugin w) \<le> compositionCount (plugin (run a es w))"
proof (induction es arbitrary: w)
  case Nil
  show ?case by (simp add: run_Nil)
next
  case (Cons e es)
  have "compositionCount (plugin w) \<le> compositionCount (plugin (step a w e))"
    by (rule step_count_mono)
  also have "\<dots> \<le> compositionCount (plugin (run a es (step a w e)))"
    by (rule Cons.IH)
  finally show ?case by (simp add: run_Cons)
qed

lemma step_frames_bounded: "frames_bounded w \<Longrightarrow> frames_bounded (step a w e)"
  by (cases e)
     (auto simp: frames_bounded_def onCompositionStart_def onCompositionEnd_def
        onBeforeInput_def list_all_iff Let_def split: prod.splits)

lemma run_frames_bounded: "frames_bounded w \<Longrightarrow> frames_bounded (run a es w)"
  by (induction es arbitrary: w) (simp_all add: run_Nil run_Cons step_frames_bounded)

lemma frames_bounded_initial: "frames_bounded initial_world"
  by (simp add: frames_bounded_def initial_world_def)

text \<open>
  C6. Take any world \<open>w\<close> the plugin can be in (reached from the initial one by any
  events). After a composition start and a composition end, the callback just scheduled
  has captured the current count \<open>g\<close>. If a second composition start runs before the
  animation frame, \<^verbatim>\<open>isComposing\<close> is still true after the frame has run every
  waiting callback. And whatever events \<open>es\<close> run before the callback for \<open>g\<close>
  does, the count has not fallen below \<open>g\<close>, the callback changes the state only if
  the count still equals \<open>g\<close>, and it changes nothing if the count differs from \<open>g\<close>.
\<close>

theorem stale_reset_is_noop:
  "let w = run a es0 initial_world;
       w2 = run a [CompositionStart, CompositionEnd d] w;
       g = compositionCount (plugin w2)
   in last (pending_frames w2) = g
      \<and> isComposing (plugin (run a [CompositionStart, AnimationFrame] w2))
      \<and> (\<forall>es. let s = plugin (run a es w2)
               in g \<le> compositionCount s
                  \<and> (frame_callback g s \<noteq> s \<longrightarrow> compositionCount s = g)
                  \<and> (compositionCount s \<noteq> g \<longrightarrow> frame_callback g s = s))"
proof -
  define w where "w = run a es0 initial_world"
  define w2 where "w2 = run a [CompositionStart, CompositionEnd d] w"
  define g where "g = compositionCount (plugin w2)"
  have bounded: "frames_bounded w2"
    unfolding w2_def w_def by (intro run_frames_bounded frames_bounded_initial)
  have captured: "last (pending_frames w2) = g"
    unfolding g_def w2_def
    by (simp add: run_Cons run_Nil onCompositionEnd_def onCompositionStart_def)
  have stale: "list_all (\<lambda>n. n < compositionCount (onCompositionStart (plugin w2)))
                 (pending_frames w2)"
    using bounded
    by (simp add: frames_bounded_def onCompositionStart_def list_all_iff less_Suc_eq_le)
  have second: "isComposing (plugin (run a [CompositionStart, AnimationFrame] w2))"
    by (simp add: run_Cons run_Nil fold_frame_callback_stale [OF stale])
       (simp add: onCompositionStart_def)
  have guard: "g \<le> compositionCount (plugin (run a es w2))
      \<and> (frame_callback g (plugin (run a es w2)) \<noteq> plugin (run a es w2)
           \<longrightarrow> compositionCount (plugin (run a es w2)) = g)
      \<and> (compositionCount (plugin (run a es w2)) \<noteq> g
           \<longrightarrow> frame_callback g (plugin (run a es w2)) = plugin (run a es w2))" for es
  proof -
    have "g \<le> compositionCount (plugin (run a es w2))"
      unfolding g_def by (rule run_count_mono)
    then show ?thesis by (auto simp: frame_callback_def)
  qed
  show ?thesis
    using captured second guard
    unfolding Let_def w_def [symmetric] w2_def [symmetric] g_def [symmetric] by blast
qed

text \<open>
  The guard at work from the initial world, on Android, with data \<open>''teh''\<close>: the count
  captured is 1; with no further event the callback changes the state and the count is
  still 1; after a second composition start the count is 2 and the callback changes
  nothing.
\<close>

theorem stale_reset_is_noop_witness:
  "frame_callback 1 (plugin (run True [CompositionStart, CompositionEnd ''teh''] initial_world))
     \<noteq> plugin (run True [CompositionStart, CompositionEnd ''teh''] initial_world)
   \<and> compositionCount
       (plugin (run True [CompositionStart, CompositionEnd ''teh''] initial_world)) = 1
   \<and> compositionCount
       (plugin (run True [CompositionStart, CompositionEnd ''teh'', CompositionStart]
          initial_world)) \<noteq> 1
   \<and> frame_callback 1
       (plugin (run True [CompositionStart, CompositionEnd ''teh'', CompositionStart]
          initial_world))
     = plugin (run True [CompositionStart, CompositionEnd ''teh'', CompositionStart]
         initial_world)
   \<and> isComposing
       (plugin (run True [CompositionStart, CompositionEnd ''teh'', CompositionStart,
          AnimationFrame] initial_world))"
  using stale_reset_is_noop [of True "[]" "''teh''"]
  by (simp add: run_def Let_def initial_world_def initial_state_def onCompositionStart_def
      onCompositionEnd_def frame_callback_def)

section \<open>Properties of \<^verbatim>\<open>onInput\<close>\<close>

subsection \<open>The handler on the first document\<close>

lemma hello_located:
  "locate hello_point tc hello_value =
     Inr \<lparr>the_leaf = \<lparr>leaf_text = ''hello world'', leaf_marks = {}\<rparr>, leaf_index = 0,
          leafStart = 0, leafEnd = 11,
          observedText = strip_trailing_newline True True tc\<rparr>"
  by (simp add: locate_def hello_point_def hello_value_def getDescendant_def
      getClosestBlock_def getLeaves_def getLastText_def lastLeaf_def)

text \<open>
  C1. The claim is that on Android, when the diff is an unchanged prefix of length \<open>k\<close>
  and then a removal of one character, the handler moves the selection to offset \<open>k\<close>
  and deletes one character backward. The handler evaluated on \<open>hello world\<close> against
  the observed text \<open>hello orld\<close>, with the cursor at offset 7: the diff is the prefix
  of length 6, the removal of \<open>w\<close> and the rest; the only call on \<^verbatim>\<open>change\<close> is
  \<^verbatim>\<open>deleteCharBackward()\<close>, with no \<^verbatim>\<open>select\<close> before it, so the selection
  is not moved; and the range the source computes and drops is the cursor moved forward
  by 6, offset 13, not offset 6.
\<close>

theorem single_backspace_selection_not_moved:
  "prefix_suffix_diff ''hello world'' ''hello orld''
     = [unchanged_op ''hello '', removed_op ''w'', unchanged_op ''orld'']
   \<and> onInput True prefix_suffix_diff (Some hello_point) ''hello orld'' hello_value
     = Inr ([DeleteCharBackward], RetFalse)
   \<and> move 6 (collapseToStart (selection hello_value)) = collapsed_at ''k1'' 13"
proof -
  have "onInput True prefix_suffix_diff (Some hello_point) ''hello orld'' hello_value
      = Inr ([DeleteCharBackward], RetFalse)"
    by (simp add: onInput_def hello_located strip_trailing_newline_def prefix_suffix_diff_def
        unchanged_op_def removed_op_def added_op_def)
  moreover have "move 6 (collapseToStart (selection hello_value)) = collapsed_at ''k1'' 13"
    by (simp add: hello_value_def collapsed_at_def move_def collapseToStart_def)
  moreover have "prefix_suffix_diff ''hello world'' ''hello orld''
      = [unchanged_op ''hello '', removed_op ''w'', unchanged_op ''orld'']"
    by (simp add: prefix_suffix_diff_def unchanged_op_def removed_op_def added_op_def)
  ultimately show ?thesis by simp
qed

text \<open>
  On Android a diff of exactly one op makes the handler throw, whatever the diff
  utility: the guard is \<^verbatim>\<open>diffs.length > 0\<close> and the next read is
  \<^verbatim>\<open>diffs[1].removed\<close>.
\<close>

lemma single_op_diff_throws:
  assumes "locate p tc v = Inr c"
    and "observedText c \<noteq> leaf_text (the_leaf c)"
    and "diffChars (leaf_text (the_leaf c)) (observedText c) = [d0]"
  shows "onInput True diffChars (Some p) tc v = Inl TypeError"
  using assms by (simp add: onInput_def)

text \<open>
  C3. The claim is that \<^verbatim>\<open>onInput\<close> never throws, also when the diff has fewer
  than two ops. The handler evaluated on Android on \<open>hello world\<close> against an empty
  observed text: the diff is the single removal of the whole text, and reading
  \<^verbatim>\<open>diffs[1].removed\<close> throws a TypeError.
\<close>

theorem pure_removal_throws:
  "prefix_suffix_diff ''hello world'' [] = [removed_op ''hello world'']
   \<and> onInput True prefix_suffix_diff (Some hello_point) [] hello_value = Inl TypeError"
  by (simp add: onInput_def hello_located strip_trailing_newline_def prefix_suffix_diff_def
      unchanged_op_def removed_op_def added_op_def)

text \<open>
  C2, as the claim states it, fails: on Android, \<open>hello world\<close> against the observed
  text \<open>hello world!\<close> is an insertion-only diff (the unchanged text, then the added
  \<open>!\<close>), and the handler makes no call on \<^verbatim>\<open>change\<close> at all.
\<close>

theorem insertion_is_not_replaced:
  "prefix_suffix_diff ''hello world'' ''hello world!''
     = [unchanged_op ''hello world'', added_op ''!'']
   \<and> onInput True prefix_suffix_diff (Some hello_point) ''hello world!'' hello_value
     = Inr ([], RetFalse)"
  by (simp add: onInput_def hello_located strip_trailing_newline_def prefix_suffix_diff_def
      unchanged_op_def removed_op_def added_op_def)

text \<open>
  C2, amended. On Android, when the observed text differs from the leaf's text and the
  diff has at least two ops: if the first op is an unchanged prefix and the second a
  removal of a count other than 1 (a multi-character removal, with or without an
  insertion after it), the handler makes the full replacement of
  \<^verbatim>\<open>updateTextAndSelection\<close>; if no op of the diff is a removal (an
  insertion-only diff), the handler makes no call on \<^verbatim>\<open>change\<close>. In both
  cases it returns false. This holds for every diff utility. Nothing is said here
  about a diff of one op, nor about a diff with a removal that does not come right after
  an unchanged prefix.
\<close>

theorem android_removal_replaces_insertion_does_not:
  assumes "locate p tc v = Inr c"
    and "observedText c \<noteq> leaf_text (the_leaf c)"
    and "diffChars (leaf_text (the_leaf c)) (observedText c) = d0 # d1 # rest"
  shows "(\<not> added d0 \<and> \<not> removed d0 \<and> removed d1 \<and> count d1 \<noteq> 1 \<longrightarrow>
            onInput True diffChars (Some p) tc v
              = Inr (updateTextAndSelection v (observedText c) (leaf_text (the_leaf c)) p
                       (leafStart c) (leafEnd c) (leaf_marks (the_leaf c)), RetFalse))
         \<and> (list_all (\<lambda>d. \<not> removed d) (d0 # d1 # rest) \<longrightarrow>
              onInput True diffChars (Some p) tc v = Inr ([], RetFalse))"
  using assms by (simp add: onInput_def Let_def)

text \<open>
  Both cases on the first document. The example of the claim: \<open>hello world\<close> against
  the observed text \<open>hello\<close> is the unchanged \<open>hello\<close> and a removal of six
  characters, and the handler replaces the range of the leaf, 0 to 11, with \<open>hello\<close>
  and moves the cursor from 7 back by 6. And \<open>hello world\<close> against \<open>hello worlds\<close>
  is the unchanged text and an added \<open>s\<close>, no op is a removal, and the handler makes
  no call.
\<close>

theorem android_removal_replaces_insertion_does_not_witness:
  "locate hello_point ''hello'' hello_value =
     Inr \<lparr>the_leaf = \<lparr>leaf_text = ''hello world'', leaf_marks = {}\<rparr>, leaf_index = 0,
          leafStart = 0, leafEnd = 11, observedText = ''hello''\<rparr>
   \<and> prefix_suffix_diff ''hello world'' ''hello''
     = [unchanged_op ''hello'', removed_op '' world'']
   \<and> onInput True prefix_suffix_diff (Some hello_point) ''hello'' hello_value
     = Inr ([InsertTextAtRange
               \<lparr>anchorKey = ''k1'', anchorOffset = 0, focusKey = ''k1'', focusOffset = 11,
                isBackward = False\<rparr> ''hello'' {},
             Select (collapsed_at ''k1'' 1)], RetFalse)
   \<and> locate hello_point ''hello worlds'' hello_value =
     Inr \<lparr>the_leaf = \<lparr>leaf_text = ''hello world'', leaf_marks = {}\<rparr>, leaf_index = 0,
          leafStart = 0, leafEnd = 11, observedText = ''hello worlds''\<rparr>
   \<and> prefix_suffix_diff ''hello world'' ''hello worlds''
     = [unchanged_op ''hello world'', added_op ''s'']
   \<and> onInput True prefix_suffix_diff (Some hello_point) ''hello worlds'' hello_value
     = Inr ([], RetFalse)"
proof -
  have l: "locate hello_point ''hello'' hello_value =
     Inr \<lparr>the_leaf = \<lparr>leaf_text = ''hello world'', leaf_marks = {}\<rparr>, leaf_index = 0,
          leafStart = 0, leafEnd = 11, observedText = ''hello''\<rparr>"
    by (simp add: hello_located strip_trailing_newline_def)
  have d: "prefix_suffix_diff ''hello world'' ''hello''
     = [unchanged_op ''hello'', removed_op '' world'']"
    by (simp add: prefix_suffix_diff_def unchanged_op_def removed_op_def added_op_def)
  have u: "updateTextAndSelection hello_value ''hello'' ''hello world'' hello_point 0 11 {}
     = [InsertTextAtRange
          \<lparr>anchorKey = ''k1'', anchorOffset = 0, focusKey = ''k1'', focusOffset = 11,
           isBackward = False\<rparr> ''hello'' {},
        Select (collapsed_at ''k1'' 1)]"
    by (simp add: updateTextAndSelection_def hello_value_def hello_point_def
        collapsed_at_def move_def collapseToEnd_def moveAnchorTo_def moveFocusTo_def)
  have removal: "onInput True prefix_suffix_diff (Some hello_point) ''hello'' hello_value
     = Inr ([InsertTextAtRange
               \<lparr>anchorKey = ''k1'', anchorOffset = 0, focusKey = ''k1'', focusOffset = 11,
                isBackward = False\<rparr> ''hello'' {},
             Select (collapsed_at ''k1'' 1)], RetFalse)"
    using android_removal_replaces_insertion_does_not
        [of hello_point "''hello''" hello_value _ prefix_suffix_diff
         "unchanged_op ''hello''" "removed_op '' world''" "[]", OF l]
      d u
    by (simp add: removed_op_def unchanged_op_def)
  have l': "locate hello_point ''hello worlds'' hello_value =
     Inr \<lparr>the_leaf = \<lparr>leaf_text = ''hello world'', leaf_marks = {}\<rparr>, leaf_index = 0,
          leafStart = 0, leafEnd = 11, observedText = ''hello worlds''\<rparr>"
    by (simp add: hello_located strip_trailing_newline_def)
  have d': "prefix_suffix_diff ''hello world'' ''hello worlds''
     = [unchanged_op ''hello world'', added_op ''s'']"
    by (simp add: prefix_suffix_diff_def unchanged_op_def removed_op_def added_op_def)
  have insertion: "onInput True prefix_suffix_diff (Some hello_point) ''hello worlds''
      hello_value = Inr ([], RetFalse)"
    using android_removal_replaces_insertion_does_not
        [of hello_point "''hello worlds''" hello_value _ prefix_suffix_diff
         "unchanged_op ''hello world''" "added_op ''s''" "[]", OF l']
      d'
    by (simp add: added_op_def unchanged_op_def)
  show ?thesis
    using l d removal l' d' insertion by simp
qed

text \<open>
  C4, as the claim states it, fails: when \<^verbatim>\<open>findPoint\<close> returns nothing, and when
  the observed text equals the leaf's text, the handler leaves through a bare
  \<^verbatim>\<open>return\<close> and the value returned is \<^verbatim>\<open>undefined\<close>, not false.
\<close>

theorem abort_paths_return_undefined:
  "onInput True prefix_suffix_diff None ''hello orld'' hello_value = Inr ([], RetUndefined)
   \<and> onInput True prefix_suffix_diff (Some hello_point) ''hello world'' hello_value
     = Inr ([], RetUndefined)"
  by (simp add: onInput_def hello_located strip_trailing_newline_def)

text \<open>
  C4, amended. Whenever \<^verbatim>\<open>onInput\<close> completes, it returns false exactly when the
  point was resolved and the observed text differs from the leaf's text; on the two abort
  paths it returns \<^verbatim>\<open>undefined\<close>, and then it has made no call on
  \<^verbatim>\<open>change\<close>.
\<close>

theorem returns_false_past_the_aborts:
  assumes "onInput is_android diffChars pt tc v = Inr (cs, r)"
  shows "(r = RetFalse \<longleftrightarrow>
           (\<exists>p c. pt = Some p \<and> locate p tc v = Inr c
                  \<and> observedText c \<noteq> leaf_text (the_leaf c)))
         \<and> (r = RetUndefined \<longrightarrow> cs = [])"
  using assms
  by (auto simp: onInput_def Let_def split: option.splits sum.splits if_splits list.splits)

theorem returns_false_past_the_aborts_witness:
  "onInput True prefix_suffix_diff (Some hello_point) ''hello orld'' hello_value
     = Inr ([DeleteCharBackward], RetFalse)
   \<and> locate hello_point ''hello orld'' hello_value
     = Inr \<lparr>the_leaf = \<lparr>leaf_text = ''hello world'', leaf_marks = {}\<rparr>, leaf_index = 0,
            leafStart = 0, leafEnd = 11, observedText = ''hello orld''\<rparr>"
proof -
  have l: "locate hello_point ''hello orld'' hello_value
     = Inr \<lparr>the_leaf = \<lparr>leaf_text = ''hello world'', leaf_marks = {}\<rparr>, leaf_index = 0,
            leafStart = 0, leafEnd = 11, observedText = ''hello orld''\<rparr>"
    by (simp add: hello_located strip_trailing_newline_def)
  have r: "onInput True prefix_suffix_diff (Some hello_point) ''hello orld'' hello_value
     = Inr ([DeleteCharBackward], RetFalse)"
    by (simp add: onInput_def l prefix_suffix_diff_def unchanged_op_def removed_op_def
        added_op_def)
  show ?thesis
    using returns_false_past_the_aborts [OF r] l r by simp
qed

text \<open>
  C8. Whatever the platform and the diff utility, if the observed text (after the COMPAT
  step) equals the text of the leaf found, \<^verbatim>\<open>onInput\<close> makes no call on
  \<^verbatim>\<open>change\<close>, so the editor's value, document and selection, is what it was.
\<close>

theorem equal_text_no_mutation:
  assumes "locate p tc v = Inr c"
    and "observedText c = leaf_text (the_leaf c)"
  shows "onInput is_android diffChars (Some p) tc v = Inr ([], RetUndefined)
         \<and> apply_calls other [] v = v"
  using assms by (simp add: onInput_def apply_calls_def)

text \<open>
  On the first document with the DOM text \<open>hello world\<close> followed by one newline: the
  newline is stripped, the texts are equal, and nothing is called.
\<close>

theorem equal_text_no_mutation_witness:
  "locate hello_point (''hello world'' @ [CHR 0x0A]) hello_value
     = Inr \<lparr>the_leaf = \<lparr>leaf_text = ''hello world'', leaf_marks = {}\<rparr>, leaf_index = 0,
            leafStart = 0, leafEnd = 11, observedText = ''hello world''\<rparr>
   \<and> onInput True prefix_suffix_diff (Some hello_point) (''hello world'' @ [CHR 0x0A])
       hello_value
     = Inr ([], RetUndefined)
   \<and> apply_calls (\<lambda>c v. v) [] hello_value = hello_value"
proof -
  have l: "locate hello_point (''hello world'' @ [CHR 0x0A]) hello_value
     = Inr \<lparr>the_leaf = \<lparr>leaf_text = ''hello world'', leaf_marks = {}\<rparr>, leaf_index = 0,
            leafStart = 0, leafEnd = 11, observedText = ''hello world''\<rparr>"
    by (simp add: hello_located strip_trailing_newline_def)
  show ?thesis
    using equal_text_no_mutation [OF l, of True prefix_suffix_diff "\<lambda>c v. v"] l by simp
qed

text \<open>
  C9. When the node found is the last text node of its block and the leaf found is the
  last leaf of the node, a DOM text \<open>s\<close> followed by a newline is compared as \<open>s\<close>:
  one newline is stripped and no more. So a DOM text ending in exactly one newline
  loses it, and one ending in two newlines (\<open>s\<close> itself ends in a newline) keeps one.
\<close>

theorem trailing_newline_compensation:
  assumes "getDescendant (document v) (key p) = Some node"
    and "getClosestBlock (document v) (node_key node) = Some block"
    and "getLastText block = Some node"
    and "locate p (s @ [CHR 0x0A]) v = Inr c"
    and "leaf_index c + 1 = length (getLeaves node)"
  shows "observedText c = s"
  using assms
  by (auto simp: locate_def Let_def lastLeaf_def strip_trailing_newline_def
      split: prod.splits option.splits if_splits)

text \<open>
  On the first document with the DOM text \<open>hello world\<close> followed by two newlines:
  the text compared is \<open>hello world\<close> followed by one newline.
\<close>

theorem trailing_newline_compensation_witness:
  "getDescendant (document hello_value) (key hello_point)
     = Some \<lparr>node_key = ''k1'', characters = map (\<lambda>c. (c, {})) ''hello world''\<rparr>
   \<and> getClosestBlock (document hello_value) ''k1''
     = Some [\<lparr>node_key = ''k1'', characters = map (\<lambda>c. (c, {})) ''hello world''\<rparr>]
   \<and> getLastText [\<lparr>node_key = ''k1'', characters = map (\<lambda>c. (c, {})) ''hello world''\<rparr>]
     = Some \<lparr>node_key = ''k1'', characters = map (\<lambda>c. (c, {})) ''hello world''\<rparr>
   \<and> locate hello_point (''hello world'' @ [CHR 0x0A] @ [CHR 0x0A]) hello_value
     = Inr \<lparr>the_leaf = \<lparr>leaf_text = ''hello world'', leaf_marks = {}\<rparr>, leaf_index = 0,
            leafStart = 0, leafEnd = 11, observedText = ''hello world'' @ [CHR 0x0A]\<rparr>
   \<and> length (getLeaves \<lparr>node_key = ''k1'', characters = map (\<lambda>c. (c, {})) ''hello world''\<rparr>)
     = 1"
proof -
  let ?node = "\<lparr>node_key = ''k1'', characters = map (\<lambda>c. (c, {})) ''hello world''\<rparr>"
  let ?c = "\<lparr>the_leaf = \<lparr>leaf_text = ''hello world'', leaf_marks = {}\<rparr>, leaf_index = 0,
            leafStart = 0, leafEnd = 11, observedText = ''hello world'' @ [CHR 0x0A]\<rparr>"
  have n: "getDescendant (document hello_value) (key hello_point) = Some ?node"
    by (simp add: getDescendant_def hello_value_def hello_point_def)
  have b: "getClosestBlock (document hello_value) (node_key ?node) = Some [?node]"
    by (simp add: getClosestBlock_def hello_value_def)
  have t: "getLastText [?node] = Some ?node"
    by (simp add: getLastText_def)
  have l: "locate hello_point ((''hello world'' @ [CHR 0x0A]) @ [CHR 0x0A]) hello_value = Inr ?c"
    by (simp add: hello_located strip_trailing_newline_def)
  have i: "leaf_index ?c + 1 = length (getLeaves ?node)"
    by (simp add: getLeaves_def)
  show ?thesis
    using trailing_newline_compensation [OF n b t l i] n b t l i by simp
qed

subsection \<open>The leaf that \<^verbatim>\<open>onInput\<close> finds\<close>








subsection \<open>Leaves as maximal runs\<close>






subsection \<open>What the replacement does to the editor's value\<close>













end
